theory Spec2Isabelle
  imports Main "HOL-Library.Word"
begin

unbundle bit_operations_syntax

section \<open>Shared vocabulary\<close>

text \<open>
  Two generations of the package are verified here: the session driver of
  \<^verbatim>\<open>gormstore.go\<close> (Read, Write, Destroy, Gc, Close) and the older self-contained
  cookie store (New, Save, MaxAge, MaxLength, Cleanup). Both talk to a relational table
  through an object-relational mapper, and the cookie store also to a cookie codec and
  to the HTTP request and response. None of these collaborators is part of the
  repository; each is represented below by the contract the package relies on, and
  every definition of that kind says so.

  A Go \<^verbatim>\<open>error\<close> is a value of type \<open>error\<close>; \<^verbatim>\<open>nil\<close> is \<open>None\<close> of
  \<open>error option\<close>. A Go panic is a value of type \<open>panic\<close>, returned as \<open>Inl\<close>.
\<close>

datatype error = Err string

datatype panic = Panic string

text \<open>
  An instant (\<^verbatim>\<open>time.Time\<close>) is a number of nanoseconds counted from Go's zero time, so
  that the zero value of the type is \<open>0\<close>. The range of \<^verbatim>\<open>time.Time\<close> (64-bit seconds)
  is far from every instant used here and is not modelled. A \<^verbatim>\<open>time.Duration\<close> is a
  signed 64-bit count of nanoseconds, and Go's \<^verbatim>\<open>int\<close> is taken at its 64-bit width;
  arithmetic on both wraps around.
\<close>

type_synonym time = int

type_synonym int64 = "64 word"

type_synonym Duration = "64 word"

definition Second :: Duration where
  "Second = 1000000000"

definition Add :: "time \<Rightarrow> Duration \<Rightarrow> time" where
  "Add t d = t + sint d"

section \<open>The relational store\<close>

text \<open>
  A table is the list of its rows, a database maps a table name to its table. The
  primary key of a row type is given by \<open>pk\<close> (the \<^verbatim>\<open>ID\<close> column in both variants).
  Every statement takes the outcome the store reports for it as an argument \<open>stmt\<close>:
  \<open>Some e\<close> when the statement fails with the error \<open>e\<close> (lost connection, missing
  table, a constraint the database enforces, a statement the mapper refuses to build),
  \<open>None\<close> when it executes. A failed statement changes no row.
\<close>

type_synonym 'r table = "'r list"

type_synonym 'r database = "string \<Rightarrow> 'r table"

record 'r Result =
  Error :: "error option"
  RowsAffected :: nat
  Dest :: "'r option"

text \<open>
  Modelled from the spec: \<^verbatim>\<open>Where(cond, args).Limit(1).Find(s)\<close> of gorm.io/gorm, the
  store's get-by-primary-key with an optional extra predicate. A miss is not an error:
  it reports zero rows and leaves the destination untouched (\<open>Dest = None\<close>).
\<close>

definition gorm_Find :: "error option \<Rightarrow> ('r \<Rightarrow> bool) \<Rightarrow> 'r table \<Rightarrow> 'r Result" where
  "gorm_Find stmt cond t =
     (case stmt of
        Some e \<Rightarrow> \<lparr>Error = Some e, RowsAffected = 0, Dest = None\<rparr>
      | None \<Rightarrow>
          (case find cond t of
             None \<Rightarrow> \<lparr>Error = None, RowsAffected = 0, Dest = None\<rparr>
           | Some r \<Rightarrow> \<lparr>Error = None, RowsAffected = 1, Dest = Some r\<rparr>))"

text \<open>
  Modelled from the spec: \<^verbatim>\<open>Delete(&gormSession{}, cond, args)\<close> of gorm.io/gorm, the
  store's delete-by-predicate, and \<^verbatim>\<open>Delete(s)\<close> for a loaded row, where the
  predicate is equality with the primary key of \<open>s\<close>. Every row that satisfies \<open>cond\<close>
  is removed, and the statement succeeds whether or not a row did.
\<close>

definition gorm_Delete :: "error option \<Rightarrow> ('r \<Rightarrow> bool) \<Rightarrow> 'r table \<Rightarrow> error option \<times> 'r table" where
  "gorm_Delete stmt cond t =
     (case stmt of
        Some e \<Rightarrow> (Some e, t)
      | None \<Rightarrow> (None, filter (\<lambda>r. \<not> cond r) t))"

text \<open>
  Modelled from the spec: \<^verbatim>\<open>Create(s)\<close> of gorm.io/gorm, an insert. The primary key is
  unique, so the insert of a key that is present fails at the store. The mapper's time
  stamps are applied by \<open>touch now inserting\<close>.
\<close>

definition ErrDuplicatedKey :: error where
  "ErrDuplicatedKey = Err ''duplicated key not allowed''"

definition gorm_Create ::
  "error option \<Rightarrow> ('r \<Rightarrow> string) \<Rightarrow> (time \<Rightarrow> bool \<Rightarrow> 'r \<Rightarrow> 'r) \<Rightarrow> time \<Rightarrow> 'r \<Rightarrow> 'r table
     \<Rightarrow> error option \<times> 'r table" where
  "gorm_Create stmt pk touch now s t =
     (case stmt of
        Some e \<Rightarrow> (Some e, t)
      | None \<Rightarrow>
          if list_ex (\<lambda>r. pk r = pk s) t then (Some ErrDuplicatedKey, t)
          else (None, t @ [touch now True s]))"

text \<open>
  Modelled from the spec: \<^verbatim>\<open>Save(s)\<close> of gorm.io/gorm, the store's
  upsert-by-primary-key: a row with the key of \<open>s\<close> is replaced by \<open>s\<close>, and \<open>s\<close> is
  inserted when there is none.
\<close>

definition gorm_Save ::
  "error option \<Rightarrow> ('r \<Rightarrow> string) \<Rightarrow> (time \<Rightarrow> bool \<Rightarrow> 'r \<Rightarrow> 'r) \<Rightarrow> time \<Rightarrow> 'r \<Rightarrow> 'r table
     \<Rightarrow> error option \<times> 'r table" where
  "gorm_Save stmt pk touch now s t =
     (case stmt of
        Some e \<Rightarrow> (Some e, t)
      | None \<Rightarrow>
          if list_ex (\<lambda>r. pk r = pk s) t
          then (None, map (\<lambda>r. if pk r = pk s then touch now False s else r) t)
          else (None, t @ [touch now True s]))"

text \<open>
  Modelled from the spec: \<^verbatim>\<open>AutoMigrate\<close> of gorm.io/gorm, the optional creation of the
  schema. It touches no row, and both constructors discard its error.
\<close>

definition gorm_AutoMigrate :: "'r database \<Rightarrow> string \<Rightarrow> 'r database" where
  "gorm_AutoMigrate d name = d"

section \<open>The driver (gormstore.go)\<close>

text \<open>The session identifier, \<^verbatim>\<open>id\<close> in the source, is \<open>sid\<close> throughout.\<close>

definition defaultTableName :: string where
  "defaultTableName = ''sessions''"

record Options =
  TableName :: string
  SkipCreateTable :: bool

text \<open>
  The column size in the struct tag of \<^verbatim>\<open>ID\<close> is schema metadata for the mapper and has
  no counterpart here.
\<close>

record gormSession =
  ID :: string
  Data :: string
  CreatedAt :: time
  UpdatedAt :: time

text \<open>
  The field \<open>db\<close> stands for the database behind the \<^verbatim>\<open>*gorm.DB\<close> handle, which is
  taken to be open. An operation that runs a statement returns the store with the
  database as the statement left it.
\<close>

record Store =
  db :: "gormSession database"
  opts :: Options

definition sessionTable :: "Store \<Rightarrow> gormSession table" where
  "sessionTable st = db st (TableName (opts st))"

definition set_sessionTable :: "Store \<Rightarrow> gormSession table \<Rightarrow> Store" where
  "set_sessionTable st t = st\<lparr>db := (db st)(TableName (opts st) := t)\<rparr>"

definition NewOptions :: "gormSession database \<Rightarrow> Options \<Rightarrow> Store" where
  "NewOptions d os =
     (let st = \<lparr>db = d, opts = os\<rparr>;
          st = (if TableName (opts st) = '''' then st\<lparr>opts := (opts st)\<lparr>TableName := defaultTableName\<rparr>\<rparr>
                else st);
          st = (if \<not> SkipCreateTable (opts st)
                then st\<lparr>db := gorm_AutoMigrate (db st) (TableName (opts st))\<rparr>
                else st)
      in st)"

definition New :: "gormSession database \<Rightarrow> Store" where
  "New d = NewOptions d \<lparr>TableName = '''', SkipCreateTable = False\<rparr>"

definition Close :: "Store \<Rightarrow> error option" where
  "Close st = None"

definition Destroy :: "Store \<Rightarrow> error option \<Rightarrow> string \<Rightarrow> error option \<times> Store" where
  "Destroy st stmt sid =
     (case gorm_Delete stmt (\<lambda>r. ID r = sid) (sessionTable st) of
        (err, t) \<Rightarrow> (err, set_sessionTable st t))"

text \<open>
  \<^verbatim>\<open>getSessionByID\<close> returns \<^verbatim>\<open>nil\<close> (\<open>None\<close>) when the lookup fails and otherwise the
  destination struct, which keeps its zero value when no row matched.
\<close>

definition zero_gormSession :: gormSession where
  "zero_gormSession = \<lparr>ID = '''', Data = '''', CreatedAt = 0, UpdatedAt = 0\<rparr>"

definition getSessionByID :: "Store \<Rightarrow> error option \<Rightarrow> string \<Rightarrow> gormSession option" where
  "getSessionByID st stmt sid =
     (let sr = gorm_Find stmt (\<lambda>r. ID r = sid) (sessionTable st)
      in if Error sr \<noteq> None then None
         else Some (case Dest sr of None \<Rightarrow> zero_gormSession | Some s \<Rightarrow> s))"

definition Read :: "Store \<Rightarrow> error option \<Rightarrow> string \<Rightarrow> string \<times> error option" where
  "Read st stmt sid =
     (case getSessionByID st stmt sid of
        Some s \<Rightarrow> (Data s, None)
      | None \<Rightarrow> ('''', None))"

text \<open>
  \<^verbatim>\<open>time.Now().Add(-time.Duration(maxLifetime)*time.Second)\<close>: the negation and the
  product are 64-bit operations.
\<close>

definition Gc :: "Store \<Rightarrow> time \<Rightarrow> error option \<Rightarrow> int64 \<Rightarrow> error option \<times> Store" where
  "Gc st now stmt maxLifetime =
     (case gorm_Delete stmt (\<lambda>r. UpdatedAt r < Add now (- maxLifetime * Second)) (sessionTable st) of
        (err, t) \<Rightarrow> (err, set_sessionTable st t))"

text \<open>
  The mapper's time stamps for the driver's rows: \<^verbatim>\<open>UpdatedAt\<close> is set to the mapper's
  clock on every update and, like \<^verbatim>\<open>CreatedAt\<close>, on an insert that leaves it zero.
\<close>

definition touch :: "time \<Rightarrow> bool \<Rightarrow> gormSession \<Rightarrow> gormSession" where
  "touch now inserting s =
     s\<lparr>CreatedAt := (if inserting \<and> CreatedAt s = 0 then now else CreatedAt s),
       UpdatedAt := (if inserting \<and> UpdatedAt s \<noteq> 0 then UpdatedAt s else now)\<rparr>"

definition Write :: "Store \<Rightarrow> time \<Rightarrow> error option \<Rightarrow> string \<Rightarrow> string \<Rightarrow> error option \<times> Store" where
  "Write st now stmt sid data =
     (let s = \<lparr>ID = sid, Data = data, CreatedAt = 0, UpdatedAt = 0\<rparr>
      in case gorm_Save stmt ID touch now s (sessionTable st) of
           (err, t) \<Rightarrow> (err, set_sessionTable st t))"

section \<open>Collaborators of the cookie store\<close>

type_synonym byte = "8 word"

subsection \<open>encoding/base32 and strings\<close>

text \<open>
  \<^verbatim>\<open>base32.StdEncoding.EncodeToString\<close> of the Go standard library (RFC 4648): five bytes
  give eight digits of five bits each, and a shorter last group is padded with \<^verbatim>\<open>=\<close>.
  The digits are computed as the library does, a missing byte contributing no bit.
\<close>

definition encodeStd :: string where
  "encodeStd = ''ABCDEFGHIJKLMNOPQRSTUVWXYZ234567''"

definition digit :: "byte \<Rightarrow> char" where
  "digit b = encodeStd ! unat (b AND 31)"

definition quantum :: "byte \<Rightarrow> byte \<Rightarrow> byte \<Rightarrow> byte \<Rightarrow> byte \<Rightarrow> string" where
  "quantum a b c d e =
     map digit
       [drop_bit 3 a,
        (push_bit 2 a AND 31) OR (drop_bit 6 b AND 31),
        drop_bit 1 b AND 31,
        (push_bit 4 b AND 31) OR (drop_bit 4 c AND 31),
        (push_bit 1 c AND 31) OR drop_bit 7 d,
        drop_bit 2 d AND 31,
        (push_bit 3 d AND 31) OR drop_bit 5 e,
        e AND 31]"

fun EncodeToString :: "byte list \<Rightarrow> string" where
  "EncodeToString (a # b # c # d # e # src) = quantum a b c d e @ EncodeToString src"
| "EncodeToString [a, b, c, d] = take 7 (quantum a b c d 0) @ ''=''"
| "EncodeToString [a, b, c] = take 5 (quantum a b c 0 0) @ ''===''"
| "EncodeToString [a, b] = take 4 (quantum a b 0 0 0) @ ''====''"
| "EncodeToString [a] = take 2 (quantum a 0 0 0 0) @ ''======''"
| "EncodeToString [] = []"

text \<open>\<^verbatim>\<open>strings.TrimRight\<close>: the text without its trailing characters that occur in the cutset.\<close>

definition TrimRight :: "string \<Rightarrow> string \<Rightarrow> string" where
  "TrimRight s cutset = rev (dropWhile (\<lambda>c. c \<in> set cutset) (rev s))"

subsection \<open>net/http and gorilla/sessions\<close>

text \<open>
  Modelled from the spec: the reading half of the cookie transport. A request is seen
  through its cookies, in the order of the header; \<^verbatim>\<open>r.Cookie(name)\<close> gives the first
  one of that name or an error.
\<close>

record Request =
  Cookies :: "(string \<times> string) list"

definition Request_Cookie :: "Request \<Rightarrow> string \<Rightarrow> string option" where
  "Request_Cookie r name = map_of (Cookies r) name"

text \<open>
  \<^verbatim>\<open>sessions.Options\<close>, passed to the cookie verbatim (the attributes that no code of
  the store reads are left out), and \<^verbatim>\<open>sessions.Session\<close>, whose values are a list of
  pairs here.
\<close>

record sessions_Options =
  Path :: string
  Domain :: string
  MaxAge :: int64
  Secure :: bool
  HttpOnly :: bool

type_synonym session_values = "(string \<times> string) list"

record Session =
  SessionID :: string
  Values :: session_values
  SessionOptions :: sessions_Options
  IsNew :: bool
  SessionName :: string

text \<open>
  Modelled from the spec: \<^verbatim>\<open>sessions.NewSession\<close>, an empty session of the given name.
\<close>

definition NewSession :: "string \<Rightarrow> Session" where
  "NewSession name =
     \<lparr>SessionID = '''', Values = [],
      SessionOptions = \<lparr>Path = '''', Domain = '''', MaxAge = 0, Secure = False, HttpOnly = False\<rparr>,
      IsNew = False, SessionName = name\<rparr>"

text \<open>
  Modelled from the spec: \<^verbatim>\<open>sessions.NewCookie\<close> and \<^verbatim>\<open>http.SetCookie\<close>, the cookie
  transport. A cookie is its name, its value and the attributes it was built from (its
  expiry date follows from their max-age); the response is seen through the
  \<^verbatim>\<open>Set-Cookie\<close> headers written to it, in order. A cookie with an empty value and a
  negative max-age clears the cookie at the client.
\<close>

record Cookie =
  Name :: string
  Value :: string
  Attributes :: sessions_Options

type_synonym ResponseWriter = "Cookie list"

definition NewCookie :: "string \<Rightarrow> string \<Rightarrow> sessions_Options \<Rightarrow> Cookie" where
  "NewCookie name val options = \<lparr>Name = name, Value = val, Attributes = options\<rparr>"

definition SetCookie :: "ResponseWriter \<Rightarrow> Cookie \<Rightarrow> ResponseWriter" where
  "SetCookie w cookie = w @ [cookie]"

subsection \<open>go-rat/securecookie\<close>

type_synonym key = "byte list"

datatype Serializer = GobEncoder

record securecookie_Options =
  MaxAge' :: int64
  MaxLength :: int64
  RotatedKeys :: "key list"
  Serializer_of :: Serializer

text \<open>
  Modelled from the spec: \<^verbatim>\<open>securecookie.New\<close>. A codec instance is determined by its
  active key and its options. The source discards the error that \<^verbatim>\<open>New\<close> returns
  beside the instance.
\<close>

record SecureCookie =
  sc_key :: key
  sc_options :: securecookie_Options

definition securecookie_New :: "key \<Rightarrow> securecookie_Options \<Rightarrow> SecureCookie" where
  "securecookie_New k options = \<lparr>sc_key = k, sc_options = options\<rparr>"

text \<open>
  The methods \<^verbatim>\<open>Encode\<close> and \<^verbatim>\<open>Decode\<close> of an instance are parameters of the model,
  one for each Go type the store passes: the value map of a session and the identifier
  string. Whatever the library computes, a call yields a result or an error, and the
  results below hold for every such behaviour. During one operation of the store each
  of the four is called at most once, so that a dependence on the clock is covered.
  The library is taken not to panic.
\<close>

record codec =
  Encode_values :: "SecureCookie \<Rightarrow> string \<Rightarrow> session_values \<Rightarrow> error + string"
  Encode_string :: "SecureCookie \<Rightarrow> string \<Rightarrow> string \<Rightarrow> error + string"
  Decode_values :: "SecureCookie \<Rightarrow> string \<Rightarrow> string \<Rightarrow> error + session_values"
  Decode_string :: "SecureCookie \<Rightarrow> string \<Rightarrow> string \<Rightarrow> error + string"

text \<open>
  Modelled from the spec: \<^verbatim>\<open>securecookie.GenerateRandomKey\<close>, that many bytes drawn
  from the system's source of secure randomness, here the sequence \<open>entropy\<close>.
\<close>

definition GenerateRandomKey :: "(nat \<Rightarrow> byte) \<Rightarrow> nat \<Rightarrow> byte list" where
  "GenerateRandomKey entropy n = map entropy [0..<n]"

section \<open>The cookie store\<close>

text \<open>
  The names of the older variant that the driver also uses carry a prime. Its methods
  \<^verbatim>\<open>New\<close>, \<^verbatim>\<open>MaxAge\<close> and \<^verbatim>\<open>MaxLength\<close> are \<open>Store_New\<close>, \<open>Store_MaxAge\<close> and
  \<open>Store_MaxLength\<close>. \<^verbatim>\<open>Get\<close>, which asks the request's registry to call \<^verbatim>\<open>New\<close>,
  and \<^verbatim>\<open>PeriodicCleanup\<close>, a timer loop around \<^verbatim>\<open>Cleanup\<close>, are left out.
\<close>

definition sessionIDLen :: nat where
  "sessionIDLen = 32"

definition defaultMaxAge :: int64 where
  "defaultMaxAge = 60 * 60 * 24 * 30"

definition defaultPath :: string where
  "defaultPath = ''/''"

record gormSession' =
  ID' :: string
  Data' :: string
  CreatedAt' :: time
  UpdatedAt' :: time
  ExpiresAt :: time

record Store' =
  db' :: "gormSession' database"
  opts' :: Options
  keys :: "key list"
  secureCookie :: SecureCookie
  SessionOpts :: sessions_Options

definition sessionTable' :: "Store' \<Rightarrow> gormSession' table" where
  "sessionTable' st = db' st (TableName (opts' st))"

definition set_sessionTable' :: "Store' \<Rightarrow> gormSession' table \<Rightarrow> Store'" where
  "set_sessionTable' st t = st\<lparr>db' := (db' st)(TableName (opts' st) := t)\<rparr>"

text \<open>\<^verbatim>\<open>NewOptions\<close> panics without a key; \<^verbatim>\<open>keys[0]\<close> and \<^verbatim>\<open>keys[1:]\<close> are head and tail.\<close>

definition NewOptions' :: "gormSession' database \<Rightarrow> Options \<Rightarrow> key list \<Rightarrow> panic + Store'" where
  "NewOptions' d os ks =
     (case ks of
        [] \<Rightarrow> Inl (Panic ''key required'')
      | k # rotated \<Rightarrow>
          (let sc = securecookie_New k
                      \<lparr>MaxAge' = 0, MaxLength = 0, RotatedKeys = rotated, Serializer_of = GobEncoder\<rparr>;
               st = \<lparr>db' = d, opts' = os, keys = ks, secureCookie = sc,
                     SessionOpts = \<lparr>Path = defaultPath, Domain = '''', MaxAge = defaultMaxAge,
                                    Secure = False, HttpOnly = False\<rparr>\<rparr>;
               st = (if TableName (opts' st) = ''''
                     then st\<lparr>opts' := (opts' st)\<lparr>TableName := defaultTableName\<rparr>\<rparr> else st);
               st = (if \<not> SkipCreateTable (opts' st)
                     then st\<lparr>db' := gorm_AutoMigrate (db' st) (TableName (opts' st))\<rparr> else st)
           in Inr st))"

definition New' :: "gormSession' database \<Rightarrow> key list \<Rightarrow> panic + Store'" where
  "New' d ks = NewOptions' d \<lparr>TableName = '''', SkipCreateTable = False\<rparr> ks"

text \<open>
  \<^verbatim>\<open>MaxAge\<close> and \<^verbatim>\<open>MaxLength\<close> write the package variable
  \<^verbatim>\<open>securecookie.DefaultOptions\<close>, which is passed in and returned here, and build the
  codec anew from the store's keys.
\<close>

definition Store_MaxAge ::
  "Store' \<Rightarrow> securecookie_Options \<Rightarrow> int64 \<Rightarrow> panic + (Store' \<times> securecookie_Options)" where
  "Store_MaxAge st DefaultOptions age =
     (let st = st\<lparr>SessionOpts := (SessionOpts st)\<lparr>MaxAge := age\<rparr>\<rparr>;
          DefaultOptions = DefaultOptions\<lparr>MaxAge' := age\<rparr>
      in case keys st of
           [] \<Rightarrow> Inl (Panic ''index out of range'')
         | k # rotated \<Rightarrow>
             Inr (st\<lparr>secureCookie := securecookie_New k
                        \<lparr>MaxAge' = age, MaxLength = MaxLength DefaultOptions,
                         RotatedKeys = rotated, Serializer_of = GobEncoder\<rparr>\<rparr>,
                  DefaultOptions))"

definition Store_MaxLength ::
  "Store' \<Rightarrow> securecookie_Options \<Rightarrow> int64 \<Rightarrow> panic + (Store' \<times> securecookie_Options)" where
  "Store_MaxLength st DefaultOptions l =
     (let DefaultOptions = DefaultOptions\<lparr>MaxLength := l\<rparr>
      in case keys st of
           [] \<Rightarrow> Inl (Panic ''index out of range'')
         | k # rotated \<Rightarrow>
             Inr (st\<lparr>secureCookie := securecookie_New k
                        \<lparr>MaxAge' = MaxAge' DefaultOptions, MaxLength = l,
                         RotatedKeys = rotated, Serializer_of = GobEncoder\<rparr>\<rparr>,
                  DefaultOptions))"

text \<open>
  \<^verbatim>\<open>getSessionFromCookie\<close>: \<open>now\<close> is the clock read for the query and \<open>stmt\<close> the
  outcome of the query.
\<close>

definition zero_gormSession' :: gormSession' where
  "zero_gormSession' = \<lparr>ID' = '''', Data' = '''', CreatedAt' = 0, UpdatedAt' = 0, ExpiresAt = 0\<rparr>"

definition getSessionFromCookie ::
  "codec \<Rightarrow> Store' \<Rightarrow> time \<Rightarrow> error option \<Rightarrow> Request \<Rightarrow> string \<Rightarrow> gormSession' option" where
  "getSessionFromCookie c st now stmt r name =
     (case Request_Cookie r name of
        Some cookie_Value \<Rightarrow>
          (case Decode_string c (secureCookie st) name cookie_Value of
             Inl err \<Rightarrow> None
           | Inr sessionID \<Rightarrow>
               (let sr = gorm_Find stmt (\<lambda>s. ID' s = sessionID \<and> ExpiresAt s > now) (sessionTable' st)
                in if Error sr \<noteq> None \<or> RowsAffected sr = 0 then None
                   else Some (case Dest sr of None \<Rightarrow> zero_gormSession' | Some s \<Rightarrow> s)))
      | None \<Rightarrow> None)"

text \<open>
  \<^verbatim>\<open>New\<close> of a store always returns a nil error beside the session. The store and the
  package variable come back as \<^verbatim>\<open>MaxAge\<close> left them.
\<close>

definition Store_New ::
  "codec \<Rightarrow> Store' \<Rightarrow> securecookie_Options \<Rightarrow> time \<Rightarrow> error option \<Rightarrow> Request \<Rightarrow> string
     \<Rightarrow> panic + ((Session \<times> error option) \<times> Store' \<times> securecookie_Options)" where
  "Store_New c st DefaultOptions now stmt r name =
     (let session = NewSession name;
          session = session\<lparr>SessionOptions := SessionOpts st\<rparr>;
          session = session\<lparr>IsNew := True\<rparr>
      in case Store_MaxAge st DefaultOptions (MaxAge (SessionOpts st)) of
           Inl p \<Rightarrow> Inl p
         | Inr (st, DefaultOptions) \<Rightarrow>
             (case getSessionFromCookie c st now stmt r (SessionName session) of
                Some s \<Rightarrow>
                  (case Decode_values c (secureCookie st) (SessionName session) (Data' s) of
                     Inl err \<Rightarrow> Inr ((session, None), st, DefaultOptions)
                   | Inr vs \<Rightarrow>
                       Inr ((session\<lparr>Values := vs, SessionID := ID' s, IsNew := False\<rparr>, None),
                            st, DefaultOptions))
              | None \<Rightarrow> Inr ((session, None), st, DefaultOptions)))"

text \<open>
  What \<^verbatim>\<open>Save\<close> takes from its surroundings: the clock and the outcome of the lookup
  query, the clock read by \<^verbatim>\<open>Save\<close> itself, the random source, and the outcome and the
  mapper's clock of the one statement that writes (the delete, the insert or the update).
\<close>

record Env =
  lookup_now :: time
  lookup_stmt :: "error option"
  save_now :: time
  entropy :: "nat \<Rightarrow> byte"
  write_stmt :: "error option"
  mapper_now :: time

text \<open>
  The mapper's time stamps for the rows of the cookie store, as for the driver's.
\<close>

definition touch' :: "time \<Rightarrow> bool \<Rightarrow> gormSession' \<Rightarrow> gormSession'" where
  "touch' now inserting s =
     s\<lparr>CreatedAt' := (if inserting \<and> CreatedAt' s = 0 then now else CreatedAt' s),
       UpdatedAt' := (if inserting \<and> UpdatedAt' s \<noteq> 0 then UpdatedAt' s else now)\<rparr>"

text \<open>
  \<^verbatim>\<open>Save\<close> returns its error, the store, the response and the session, whose
  identifier it sets when it creates a row.
\<close>

definition Save ::
  "codec \<Rightarrow> Env \<Rightarrow> Store' \<Rightarrow> Request \<Rightarrow> ResponseWriter \<Rightarrow> Session
     \<Rightarrow> error option \<times> Store' \<times> ResponseWriter \<times> Session" where
  "Save c env st r w session =
     (let s = getSessionFromCookie c st (lookup_now env) (lookup_stmt env) r (SessionName session)
      in if sint (MaxAge (SessionOptions session)) < 0 then
           (case (case s of
                    Some s0 \<Rightarrow> gorm_Delete (write_stmt env) (\<lambda>row. ID' row = ID' s0) (sessionTable' st)
                  | None \<Rightarrow> (None, sessionTable' st)) of
              (Some err, t) \<Rightarrow> (Some err, st, w, session)
            | (None, t) \<Rightarrow>
                (None, set_sessionTable' st t,
                 SetCookie w (NewCookie (SessionName session) '''' (SessionOptions session)), session))
         else
           (case Encode_values c (secureCookie st) (SessionName session) (Values session) of
              Inl err \<Rightarrow> (Some err, st, w, session)
            | Inr data \<Rightarrow>
                (let now = save_now env;
                     expire = Add now (Second * MaxAge (SessionOptions session));
                     session = (case s of
                                  None \<Rightarrow>
                                    session\<lparr>SessionID :=
                                      TrimRight (EncodeToString (GenerateRandomKey (entropy env) sessionIDLen)) ''=''\<rparr>
                                | Some s0 \<Rightarrow> session);
                     s1 = (case s of
                             None \<Rightarrow>
                               \<lparr>ID' = SessionID session, Data' = data, CreatedAt' = now,
                                UpdatedAt' = now, ExpiresAt = expire\<rparr>
                           | Some s0 \<Rightarrow> s0\<lparr>Data' := data, UpdatedAt' := now, ExpiresAt := expire\<rparr>)
                 in case (case s of
                            None \<Rightarrow> gorm_Create (write_stmt env) ID' touch' (mapper_now env) s1 (sessionTable' st)
                          | Some s0 \<Rightarrow> gorm_Save (write_stmt env) ID' touch' (mapper_now env) s1 (sessionTable' st)) of
                      (Some err, t) \<Rightarrow> (Some err, st, w, session)
                    | (None, t) \<Rightarrow>
                        (case Encode_string c (secureCookie st) (SessionName session) (ID' s1) of
                           Inl err \<Rightarrow> (Some err, set_sessionTable' st t, w, session)
                         | Inr sid \<Rightarrow>
                             (None, set_sessionTable' st t,
                              SetCookie w (NewCookie (SessionName session) sid (SessionOptions session)),
                              session)))))"

text \<open>\<^verbatim>\<open>Cleanup\<close> drops the error of its statement.\<close>

definition Cleanup :: "Store' \<Rightarrow> time \<Rightarrow> error option \<Rightarrow> Store'" where
  "Cleanup st now stmt =
     (case gorm_Delete stmt (\<lambda>row. ExpiresAt row \<le> now) (sessionTable' st) of
        (err, t) \<Rightarrow> set_sessionTable' st t)"

section \<open>The secure envelope\<close>

text \<open>
  Modelled from the spec: the secure envelope of go-rat/securecookie (section 4.4),
  whose code is not part of the repository. Cryptography is perfect: an encoded text
  is the value together with the key that sealed it, the cookie name and the time of
  sealing, and it opens under that key only. The first key of an instance seals; the
  first key and the rotated keys open. A positive maximum age rejects a text sealed
  more than that many seconds ago, a positive maximum length rejects a text longer
  than it, and zero switches either limit off. The length of a text depends on the
  serializer and is the parameter \<open>len\<close>.
\<close>

datatype 'a envelope = Sealed key string time 'a

definition ErrDecode :: error where
  "ErrDecode = Err ''securecookie: the value is not valid''"

definition ErrTooLong :: error where
  "ErrTooLong = Err ''securecookie: the value is too long''"

definition tooLong :: "('a envelope \<Rightarrow> int) \<Rightarrow> SecureCookie \<Rightarrow> 'a envelope \<Rightarrow> bool" where
  "tooLong len sc text =
     (sint (MaxLength (sc_options sc)) > 0 \<and> len text > sint (MaxLength (sc_options sc)))"

definition expired :: "SecureCookie \<Rightarrow> time \<Rightarrow> time \<Rightarrow> bool" where
  "expired sc now sealed =
     (sint (MaxAge' (sc_options sc)) > 0
      \<and> sealed + sint (MaxAge' (sc_options sc)) * 1000000000 < now)"

definition envelope_Encode ::
  "('a envelope \<Rightarrow> int) \<Rightarrow> SecureCookie \<Rightarrow> time \<Rightarrow> string \<Rightarrow> 'a \<Rightarrow> error + 'a envelope" where
  "envelope_Encode len sc now name v =
     (let text = Sealed (sc_key sc) name now v
      in if tooLong len sc text then Inl ErrTooLong else Inr text)"

definition envelope_Decode ::
  "('a envelope \<Rightarrow> int) \<Rightarrow> SecureCookie \<Rightarrow> time \<Rightarrow> string \<Rightarrow> 'a envelope \<Rightarrow> error + 'a" where
  "envelope_Decode len sc now name text =
     (case text of
        Sealed k n sealed v \<Rightarrow>
          if tooLong len sc text then Inl ErrTooLong
          else if n \<noteq> name then Inl ErrDecode
          else if k \<notin> set (sc_key sc # RotatedKeys (sc_options sc)) then Inl ErrDecode
          else if expired sc now sealed then Inl ErrDecode
          else Inr v)"

section \<open>Sample inputs\<close>

text \<open>
  Concrete inputs at which the results below are instantiated: a codec that writes an
  identifier \<open>s\<close> as \<open>id:s\<close>, one whose encoding of identifiers fails, a store with
  one key whose table holds a row that expired at 10 and a row that expires at 100, the
  surroundings of a \<^verbatim>\<open>Save\<close> at time 50, and a session and a request named \<open>sess\<close>.
\<close>

definition sample_codec :: codec where
  "sample_codec =
     \<lparr>Encode_values = (\<lambda>sc name vs. Inr ''data''),
      Encode_string = (\<lambda>sc name s. Inr (''id:'' @ s)),
      Decode_values = (\<lambda>sc name text. Inr []),
      Decode_string = (\<lambda>sc name text.
         if take 3 text = ''id:'' then Inr (drop 3 text) else Inl (Err ''bad cookie''))\<rparr>"

definition failing_codec :: codec where
  "failing_codec = sample_codec\<lparr>Encode_string := (\<lambda>sc name s. Inl (Err ''too long''))\<rparr>"

definition old_row :: gormSession' where
  "old_row = \<lparr>ID' = ''old'', Data' = ''x'', CreatedAt' = 1, UpdatedAt' = 1, ExpiresAt = 10\<rparr>"

definition live_row :: gormSession' where
  "live_row = \<lparr>ID' = ''live'', Data' = ''y'', CreatedAt' = 2, UpdatedAt' = 2, ExpiresAt = 100\<rparr>"

definition sample_store :: Store' where
  "sample_store =
     \<lparr>db' = (\<lambda>_. [])(''sessions'' := [old_row, live_row]),
      opts' = \<lparr>TableName = ''sessions'', SkipCreateTable = False\<rparr>,
      keys = [[1]],
      secureCookie = securecookie_New [1]
        \<lparr>MaxAge' = 0, MaxLength = 0, RotatedKeys = [], Serializer_of = GobEncoder\<rparr>,
      SessionOpts = \<lparr>Path = ''/'', Domain = '''', MaxAge = 2592000, Secure = False, HttpOnly = False\<rparr>\<rparr>"

definition sample_defaults :: securecookie_Options where
  "sample_defaults = \<lparr>MaxAge' = 0, MaxLength = 4096, RotatedKeys = [], Serializer_of = GobEncoder\<rparr>"

definition sample_env :: Env where
  "sample_env =
     \<lparr>lookup_now = 50, lookup_stmt = None, save_now = 51, entropy = (\<lambda>i. of_nat i),
      write_stmt = None, mapper_now = 52\<rparr>"

definition sample_session :: "int64 \<Rightarrow> Session" where
  "sample_session age =
     \<lparr>SessionID = '''', Values = [],
      SessionOptions = \<lparr>Path = ''/'', Domain = '''', MaxAge = age, Secure = False, HttpOnly = False\<rparr>,
      IsNew = True, SessionName = ''sess''\<rparr>"

definition sample_request :: "string \<Rightarrow> Request" where
  "sample_request v = \<lparr>Cookies = [(''sess'', v)]\<rparr>"

section \<open>Properties of the driver\<close>

lemma sessionTable_set [simp]: "sessionTable (set_sessionTable st t) = t"
  by (simp add: sessionTable_def set_sessionTable_def)

lemma set_sessionTable_same [simp]: "set_sessionTable st (sessionTable st) = st"
  by (simp add: sessionTable_def set_sessionTable_def)

lemma set_sessionTable_twice [simp]:
  "set_sessionTable (set_sessionTable st t) t' = set_sessionTable st t'"
  by (simp add: set_sessionTable_def)



lemma find_absent: "\<forall>r \<in> set t. \<not> P r \<Longrightarrow> find P t = None"
  by (induction t) auto

lemma ID_touch [simp]: "ID (touch now b s) = ID s"
  by (simp add: touch_def)

lemma Data_touch [simp]: "Data (touch now b s) = Data s"
  by (simp add: touch_def)



text \<open>
  C7. Idempotent delete: a \<^verbatim>\<open>Destroy(K)\<close> whose statement executes returns a nil error
  whatever the table holds, leaves no row with the identifier \<open>K\<close>, and leaves the store
  as it was when no row had that identifier.
\<close>

theorem destroy_idempotent:
  "fst (Destroy st None K) = None
   \<and> (\<forall>r \<in> set (sessionTable (snd (Destroy st None K))). ID r \<noteq> K)
   \<and> ((\<forall>r \<in> set (sessionTable st). ID r \<noteq> K) \<longrightarrow> Destroy st None K = (None, st))"
  by (auto simp add: Destroy_def gorm_Delete_def filter_id_conv)

theorem destroy_idempotent_witness:
  "Destroy (set_sessionTable (New (\<lambda>_. [])) [\<lparr>ID = ''a'', Data = ''x'', CreatedAt = 1, UpdatedAt = 2\<rparr>])
     None ''k''
   = (None, set_sessionTable (New (\<lambda>_. [])) [\<lparr>ID = ''a'', Data = ''x'', CreatedAt = 1, UpdatedAt = 2\<rparr>])"
  using destroy_idempotent
    [of "set_sessionTable (New (\<lambda>_. [])) [\<lparr>ID = ''a'', Data = ''x'', CreatedAt = 1, UpdatedAt = 2\<rparr>]" "''k''"]
  by simp

text \<open>
  C8. Reads fail soft, writes fail loud: \<^verbatim>\<open>Read\<close> returns the empty payload and a nil
  error when the lookup fails at the store and when no row has the identifier, while
  \<^verbatim>\<open>Write\<close>, \<^verbatim>\<open>Destroy\<close> and \<^verbatim>\<open>Gc\<close> return the very error of their statement and
  leave the store unchanged.
\<close>

theorem read_soft_write_loud:
  "Read st (Some e) K = ('''', None)
   \<and> ((\<forall>r \<in> set (sessionTable st). ID r \<noteq> K) \<longrightarrow> Read st stmt K = ('''', None))
   \<and> Write st now (Some e) K P = (Some e, st)
   \<and> Destroy st (Some e) K = (Some e, st)
   \<and> Gc st now (Some e) maxLifetime = (Some e, st)"
proof -
  have "Read st (Some e) K = ('''', None)"
    by (simp add: Read_def getSessionByID_def gorm_Find_def)
  moreover have "Read st stmt K = ('''', None)" if "\<forall>r \<in> set (sessionTable st). ID r \<noteq> K"
    using that
    by (cases stmt)
       (simp_all add: Read_def getSessionByID_def gorm_Find_def zero_gormSession_def find_absent)
  moreover have "Write st now (Some e) K P = (Some e, st)"
    by (simp add: Write_def gorm_Save_def)
  moreover have "Destroy st (Some e) K = (Some e, st)"
    by (simp add: Destroy_def gorm_Delete_def)
  moreover have "Gc st now (Some e) maxLifetime = (Some e, st)"
    by (simp add: Gc_def gorm_Delete_def)
  ultimately show ?thesis by blast
qed

theorem read_soft_write_loud_witness:
  "Read (set_sessionTable (New (\<lambda>_. [])) [\<lparr>ID = ''a'', Data = ''x'', CreatedAt = 1, UpdatedAt = 2\<rparr>])
     None ''k'' = ('''', None)
   \<and> Read (New (\<lambda>_. [])) (Some (Err ''down'')) ''k'' = ('''', None)
   \<and> Write (New (\<lambda>_. [])) 5 (Some (Err ''down'')) ''k'' ''p'' = (Some (Err ''down''), New (\<lambda>_. []))"
  using read_soft_write_loud
    [of "set_sessionTable (New (\<lambda>_. [])) [\<lparr>ID = ''a'', Data = ''x'', CreatedAt = 1, UpdatedAt = 2\<rparr>]"
        "Err ''down''" "''k''" None]
    read_soft_write_loud [of "New (\<lambda>_. [])" "Err ''down''" "''k''" None 5 "''p''"]
  by simp

text \<open>
  The sweep of \<^verbatim>\<open>Gc\<close> while the product \<^verbatim>\<open>maxLifetime * time.Second\<close> fits 64 bits:
  exactly the rows updated before \<open>now\<close> minus \<open>maxLifetime\<close> seconds go.
\<close>

lemma Gc_in_range:
  assumes "\<bar>sint maxLifetime\<bar> \<le> 9223372036"
  shows "Gc st now None maxLifetime =
           (None, set_sessionTable st
              (filter (\<lambda>r. \<not> UpdatedAt r < now - sint maxLifetime * 1000000000) (sessionTable st)))"
proof -
  have "sint (- maxLifetime * Second) = - sint maxLifetime * 1000000000"
    using assms by (simp add: Second_def sint_word_ariths signed_take_bit_int_eq_self)
  then show ?thesis
    by (simp add: Gc_def gorm_Delete_def Add_def)
qed

text \<open>\<^verbatim>\<open>Read\<close> looks at no time stamp: rows that differ in their time stamps only read alike.\<close>

lemma Read_ignores_age:
  "Read (set_sessionTable st (map (\<lambda>r. r\<lparr>CreatedAt := c r, UpdatedAt := u r\<rparr>) t)) stmt K
     = Read (set_sessionTable st t) stmt K"
proof -
  have "map_option Data (find (\<lambda>r. ID r = K) (map (\<lambda>r. r\<lparr>CreatedAt := c r, UpdatedAt := u r\<rparr>) t))
          = map_option Data (find (\<lambda>r. ID r = K) t)"
    by (induction t) auto
  then show ?thesis
    by (cases stmt)
       (auto simp add: Read_def getSessionByID_def gorm_Find_def split: option.splits)
qed

text \<open>
  C3. Relative expiry of the driver, at a lifetime whose nanosecond count leaves 64
  bits: with \<^verbatim>\<open>maxLifetime = 9223372037\<close> seconds the cutoff computed by \<^verbatim>\<open>Gc\<close> lies
  in the future, and the sweep removes a row updated one second ago and a row updated
  at \<open>now - maxLifetime + 1s\<close>, both younger than the lifetime.
\<close>

theorem Gc_overflow_removes_young_rows:
  "Gc (set_sessionTable (New (\<lambda>_. []))
         [\<lparr>ID = ''a'', Data = ''x'', CreatedAt = 54676627965000000000, UpdatedAt = 54676627965000000000\<rparr>,
          \<lparr>ID = ''b'', Data = ''y'', CreatedAt = 63900000000000000000, UpdatedAt = 63900000000000000000\<rparr>])
      63900000001000000000 None 9223372037
   = (None, set_sessionTable (New (\<lambda>_. [])) [])"
  by (simp add: Gc_def gorm_Delete_def Add_def Second_def)

section \<open>Properties of the cookie store\<close>

lemma sessionTable'_set [simp]: "sessionTable' (set_sessionTable' st t) = t"
  by (simp add: sessionTable'_def set_sessionTable'_def)

lemma set_sessionTable'_same [simp]: "set_sessionTable' st (sessionTable' st) = st"
  by (simp add: sessionTable'_def set_sessionTable'_def)

text \<open>
  C4. Construction of the cookie store: without a key \<^verbatim>\<open>NewOptions\<close> and \<^verbatim>\<open>New\<close>
  panic, for every database and every options, and return no store; with at least one
  key they return a store that holds the keys given.
\<close>

theorem construction_needs_key:
  "NewOptions' d os [] = Inl (Panic ''key required'')
   \<and> New' d [] = Inl (Panic ''key required'')
   \<and> (\<exists>st. NewOptions' d os (k # ks) = Inr st \<and> keys st = k # ks)
   \<and> (\<exists>st. New' d (k # ks) = Inr st \<and> keys st = k # ks)"
  by (simp add: NewOptions'_def New'_def Let_def)




lemma find_in: "find P t = Some x \<Longrightarrow> x \<in> set t \<and> P x"
  by (induction t) (auto split: if_splits)

lemma find_filter: "(\<And>x. P x \<Longrightarrow> Q x) \<Longrightarrow> find P (filter Q t) = find P t"
  by (induction t) auto

lemma getSessionFromCookie_Some:
  assumes "getSessionFromCookie c st now stmt r name = Some s"
  shows "s \<in> set (sessionTable' st) \<and> now < ExpiresAt s"
proof -
  from assms obtain v sessionID where
    "find (\<lambda>s. ID' s = sessionID \<and> ExpiresAt s > now) (sessionTable' st) = Some s"
    by (auto simp add: getSessionFromCookie_def gorm_Find_def Let_def
        split: option.splits sum.splits if_splits)
  then show ?thesis by (auto dest: find_in)
qed

lemma Cleanup_table:
  "sessionTable' (Cleanup st now None) = filter (\<lambda>row. now < ExpiresAt row) (sessionTable' st)"
  by (simp add: Cleanup_def gorm_Delete_def not_le)

lemma Cleanup_fields [simp]: "secureCookie (Cleanup st now stmt) = secureCookie st"
  by (simp add: Cleanup_def set_sessionTable'_def split: prod.splits)

lemma getSessionFromCookie_Cleanup:
  "getSessionFromCookie c (Cleanup st now None) now stmt r name = getSessionFromCookie c st now stmt r name"
proof -
  have live: "find (\<lambda>s. ID' s = i \<and> now < ExpiresAt s) (filter (\<lambda>row. now < ExpiresAt row) t)
          = find (\<lambda>s. ID' s = i \<and> now < ExpiresAt s) t" for i t
    by (rule find_filter) simp
  show ?thesis
    by (simp add: getSessionFromCookie_def gorm_Find_def Cleanup_table live
        cong: option.case_cong sum.case_cong)
qed

lemma Store_MaxAge_table:
  "Store_MaxAge st dflt age = Inr (st1, dflt1) \<Longrightarrow> sessionTable' st1 = sessionTable' st"
  by (auto simp add: Store_MaxAge_def Let_def sessionTable'_def split: list.splits)

lemma Store_New_cases:
  assumes "Store_New c st dflt now stmt r name = Inr ((session, err), st1, dflt1)"
  shows "err = None \<and>
    ((IsNew session \<and> SessionID session = '''' \<and> Values session = [])
     \<or> (\<exists>row \<in> set (sessionTable' st). ID' row = SessionID session \<and> now < ExpiresAt row))"
proof -
  from assms obtain st0 dflt0 where age: "Store_MaxAge st dflt (MaxAge (SessionOpts st)) = Inr (st0, dflt0)"
    by (auto simp add: Store_New_def Let_def split: sum.splits)
  show ?thesis
  proof (cases "getSessionFromCookie c st0 now stmt r name")
    case None
    with assms age show ?thesis
      by (auto simp add: Store_New_def Let_def NewSession_def)
  next
    case (Some s)
    then have "s \<in> set (sessionTable' st) \<and> now < ExpiresAt s"
      using getSessionFromCookie_Some [OF Some] Store_MaxAge_table [OF age] by simp
    with assms age Some show ?thesis
      by (auto simp add: Store_New_def Let_def NewSession_def split: sum.splits)
  qed
qed

lemma getSessionFromCookie_ID:
  assumes "getSessionFromCookie c st now stmt r name = Some s"
  shows "\<exists>v. Request_Cookie r name = Some v \<and> Decode_string c (secureCookie st) name v = Inr (ID' s)"
proof -
  from assms obtain v sessionID where
    "Request_Cookie r name = Some v" "Decode_string c (secureCookie st) name v = Inr sessionID"
    "find (\<lambda>s. ID' s = sessionID \<and> ExpiresAt s > now) (sessionTable' st) = Some s"
    by (auto simp add: getSessionFromCookie_def gorm_Find_def Let_def
        split: option.splits sum.splits if_splits)
  then show ?thesis by (auto dest: find_in)
qed

lemma getSessionFromCookie_expired:
  assumes "Request_Cookie r name = Some v"
    and "Decode_string c (secureCookie st) name v = Inr sid"
    and "\<forall>row \<in> set (sessionTable' st). ID' row = sid \<longrightarrow> ExpiresAt row \<le> now"
  shows "getSessionFromCookie c st now stmt r name = None"
proof (cases "getSessionFromCookie c st now stmt r name")
  case None
  then show ?thesis .
next
  case (Some s)
  from getSessionFromCookie_ID [OF Some] assms(1,2) have "ID' s = sid" by auto
  moreover from getSessionFromCookie_Some [OF Some]
  have "s \<in> set (sessionTable' st)" "now < ExpiresAt s" by simp_all
  ultimately show ?thesis using assms(3) by fastforce
qed

lemma Store_New_expired:
  assumes "Store_MaxAge st dflt (MaxAge (SessionOpts st)) = Inr (st0, dflt0)"
    and "Request_Cookie r name = Some v"
    and "Decode_string c (secureCookie st0) name v = Inr sid"
    and "\<forall>row \<in> set (sessionTable' st). ID' row = sid \<longrightarrow> ExpiresAt row \<le> now"
  shows "Store_New c st dflt now stmt r name
           = Inr (((NewSession name)\<lparr>SessionOptions := SessionOpts st, IsNew := True\<rparr>, None), st0, dflt0)"
proof -
  from assms(4) Store_MaxAge_table [OF assms(1)]
  have "\<forall>row \<in> set (sessionTable' st0). ID' row = sid \<longrightarrow> ExpiresAt row \<le> now" by simp
  from getSessionFromCookie_expired [OF assms(2,3) this]
  have "getSessionFromCookie c st0 now stmt r name = None" .
  with assms(1) show ?thesis
    by (simp add: Store_New_def Let_def NewSession_def)
qed

lemma Store_New_loaded:
  assumes "Store_New c st dflt now stmt r name = Inr ((session, err), st1, dflt1)"
    and "\<not> IsNew session"
  shows "\<exists>v row. Request_Cookie r name = Some v
           \<and> Decode_string c (secureCookie st1) name v = Inr (SessionID session)
           \<and> row \<in> set (sessionTable' st) \<and> ID' row = SessionID session \<and> now < ExpiresAt row"
proof -
  from assms(1) obtain st0 dflt0 where
    age: "Store_MaxAge st dflt (MaxAge (SessionOpts st)) = Inr (st0, dflt0)"
    by (auto simp add: Store_New_def Let_def split: sum.splits)
  show ?thesis
  proof (cases "getSessionFromCookie c st0 now stmt r name")
    case None
    with assms age show ?thesis
      by (auto simp add: Store_New_def Let_def NewSession_def)
  next
    case (Some s)
    from getSessionFromCookie_Some [OF Some] Store_MaxAge_table [OF age]
    have row: "s \<in> set (sessionTable' st)" "now < ExpiresAt s" by simp_all
    from getSessionFromCookie_ID [OF Some] obtain v where
      v: "Request_Cookie r name = Some v" "Decode_string c (secureCookie st0) name v = Inr (ID' s)"
      by blast
    from assms age Some have "st1 = st0" "SessionID session = ID' s"
      by (auto simp add: Store_New_def Let_def NewSession_def split: sum.splits)
    with row v show ?thesis by auto
  qed
qed

text \<open>
  C2. Absolute expiry of the cookie store. The lookup by cookie returns only rows of
  the table that expire after the clock reading \<open>now\<close>, so a row with
  \<open>ExpiresAt \<le> now\<close> is never returned, purged or not. A session that \<^verbatim>\<open>New\<close>
  returns is either fresh (new, with no identifier and no values) or carries the
  identifier of a row that expires after \<open>now\<close>. A \<^verbatim>\<open>Cleanup\<close> whose statement
  executes leaves exactly the rows that expire after \<open>now\<close>, in their order, and the
  lookup finds after it what it found before. The row that the lookup returns has the
  identifier that the request's cookie decodes to. Hence, when the cookie decodes to
  \<open>sid\<close> and every row with the identifier \<open>sid\<close> has \<open>ExpiresAt \<le> now\<close>, the lookup
  returns nothing and \<^verbatim>\<open>New\<close> returns the fresh session: the empty session of that
  name with the store's options, marked new. A session that \<^verbatim>\<open>New\<close> returns not
  marked new carries the identifier the cookie decodes to, and a row of the table with
  that identifier expires after \<open>now\<close>. \<^verbatim>\<open>New\<close> decodes with the codec that its call
  of \<^verbatim>\<open>MaxAge\<close> built.
\<close>

theorem absolute_expiry:
  "(\<forall>s. getSessionFromCookie c st now stmt r name = Some s
        \<longrightarrow> s \<in> set (sessionTable' st) \<and> now < ExpiresAt s)
   \<and> (\<forall>session err st1 dflt1.
        Store_New c st dflt now stmt r name = Inr ((session, err), st1, dflt1)
        \<longrightarrow> (IsNew session \<and> SessionID session = '''' \<and> Values session = [])
            \<or> (\<exists>row \<in> set (sessionTable' st). ID' row = SessionID session \<and> now < ExpiresAt row))
   \<and> sessionTable' (Cleanup st now None) = filter (\<lambda>row. now < ExpiresAt row) (sessionTable' st)
   \<and> getSessionFromCookie c (Cleanup st now None) now stmt r name
       = getSessionFromCookie c st now stmt r name
   \<and> (\<forall>s. getSessionFromCookie c st now stmt r name = Some s
        \<longrightarrow> (\<exists>v. Request_Cookie r name = Some v
                  \<and> Decode_string c (secureCookie st) name v = Inr (ID' s)))
   \<and> (\<forall>v sid.
        Request_Cookie r name = Some v
        \<and> Decode_string c (secureCookie st) name v = Inr sid
        \<and> (\<forall>row \<in> set (sessionTable' st). ID' row = sid \<longrightarrow> ExpiresAt row \<le> now)
        \<longrightarrow> getSessionFromCookie c st now stmt r name = None)
   \<and> (\<forall>v sid st0 dflt0.
        Store_MaxAge st dflt (MaxAge (SessionOpts st)) = Inr (st0, dflt0)
        \<and> Request_Cookie r name = Some v
        \<and> Decode_string c (secureCookie st0) name v = Inr sid
        \<and> (\<forall>row \<in> set (sessionTable' st). ID' row = sid \<longrightarrow> ExpiresAt row \<le> now)
        \<longrightarrow> Store_New c st dflt now stmt r name
              = Inr (((NewSession name)\<lparr>SessionOptions := SessionOpts st, IsNew := True\<rparr>, None),
                     st0, dflt0))
   \<and> (\<forall>session err st1 dflt1.
        Store_New c st dflt now stmt r name = Inr ((session, err), st1, dflt1) \<and> \<not> IsNew session
        \<longrightarrow> (\<exists>v row. Request_Cookie r name = Some v
                  \<and> Decode_string c (secureCookie st1) name v = Inr (SessionID session)
                  \<and> row \<in> set (sessionTable' st) \<and> ID' row = SessionID session
                  \<and> now < ExpiresAt row))"
proof (intro conjI allI impI)
  fix s assume "getSessionFromCookie c st now stmt r name = Some s"
  then show "s \<in> set (sessionTable' st)" "now < ExpiresAt s"
    by (simp_all add: getSessionFromCookie_Some)
next
  fix session err st1 dflt1
  assume "Store_New c st dflt now stmt r name = Inr ((session, err), st1, dflt1)"
  then show "(IsNew session \<and> SessionID session = [] \<and> Values session = [])
            \<or> (\<exists>row \<in> set (sessionTable' st). ID' row = SessionID session \<and> now < ExpiresAt row)"
    by (simp add: Store_New_cases)
next
  show "sessionTable' (Cleanup st now None) = filter (\<lambda>row. now < ExpiresAt row) (sessionTable' st)"
    by (rule Cleanup_table)
next
  show "getSessionFromCookie c (Cleanup st now None) now stmt r name
       = getSessionFromCookie c st now stmt r name"
    by (rule getSessionFromCookie_Cleanup)
next
  fix s assume "getSessionFromCookie c st now stmt r name = Some s"
  then show "\<exists>v. Request_Cookie r name = Some v
                  \<and> Decode_string c (secureCookie st) name v = Inr (ID' s)"
    by (rule getSessionFromCookie_ID)
next
  fix v sid
  assume "Request_Cookie r name = Some v
        \<and> Decode_string c (secureCookie st) name v = Inr sid
        \<and> (\<forall>row \<in> set (sessionTable' st). ID' row = sid \<longrightarrow> ExpiresAt row \<le> now)"
  then show "getSessionFromCookie c st now stmt r name = None"
    using getSessionFromCookie_expired by blast
next
  fix v sid st0 dflt0
  assume "Store_MaxAge st dflt (MaxAge (SessionOpts st)) = Inr (st0, dflt0)
        \<and> Request_Cookie r name = Some v
        \<and> Decode_string c (secureCookie st0) name v = Inr sid
        \<and> (\<forall>row \<in> set (sessionTable' st). ID' row = sid \<longrightarrow> ExpiresAt row \<le> now)"
  then show "Store_New c st dflt now stmt r name
              = Inr (((NewSession name)\<lparr>SessionOptions := SessionOpts st, IsNew := True\<rparr>, None),
                     st0, dflt0)"
    using Store_New_expired by blast
next
  fix session err st1 dflt1
  assume "Store_New c st dflt now stmt r name = Inr ((session, err), st1, dflt1) \<and> \<not> IsNew session"
  then show "\<exists>v row. Request_Cookie r name = Some v
                  \<and> Decode_string c (secureCookie st1) name v = Inr (SessionID session)
                  \<and> row \<in> set (sessionTable' st) \<and> ID' row = SessionID session
                  \<and> now < ExpiresAt row"
    using Store_New_loaded by blast
qed

lemma digit_in: "digit b \<in> set encodeStd"
proof -
  have "unat (b AND 31) \<le> unat (31 :: byte)"
    by (rule word_and_le1 [THEN word_le_nat_alt [THEN iffD1]])
  then have "unat (b AND 31) < length encodeStd"
    by (simp add: encodeStd_def)
  then show ?thesis
    unfolding digit_def by (rule nth_mem)
qed

lemma quantum_digits: "set (quantum a b c d e) \<subseteq> set encodeStd"
  by (auto simp add: quantum_def digit_in)

lemma length_quantum [simp]: "length (quantum a b c d e) = 8"
  by (simp add: quantum_def)

lemma set_take_quantum: "set (take n (quantum a b c d e)) \<subseteq> set encodeStd"
  using quantum_digits set_take_subset by fast



lemma div5: "(8 * (5 + n) + 4) div 5 = 8 + (8 * n + 4) div (5::nat)"
  by simp

lemma shape_step:
  assumes "EncodeToString src = body @ replicate n CHR ''=''" "set body \<subseteq> set encodeStd"
    "length body = (8 * length src + 4) div 5"
  shows "EncodeToString (a # b # c # d # e # src) = (quantum a b c d e @ body) @ replicate n CHR ''=''
     \<and> set (quantum a b c d e @ body) \<subseteq> set encodeStd
     \<and> length (quantum a b c d e @ body) = (8 * length (a # b # c # d # e # src) + 4) div 5"
proof -
  have "length (a # b # c # d # e # src) = 5 + length src" by simp
  then have "(8 * length (a # b # c # d # e # src) + 4) div 5 = 8 + (8 * length src + 4) div 5"
    by (simp only: div5)
  then show ?thesis
    using assms quantum_digits [of a b c d e] by simp
qed



lemma pad: "replicate 1 CHR ''='' = ''=''" "replicate 3 CHR ''='' = ''===''"
  "replicate 4 CHR ''='' = ''====''" "replicate 6 CHR ''='' = ''======''"
  by (simp_all add: numeral_eq_Suc)

lemma groups: "(8 * length [a, b, c, d] + 4) div 5 = 7" "(8 * length [a, b, c] + 4) div 5 = 5"
  "(8 * length [a, b] + 4) div 5 = 4" "(8 * length [a] + 4) div 5 = 2"
  by simp_all

lemma shape_base:
  assumes "EncodeToString src = take n (quantum a b c d e) @ replicate p CHR ''=''"
    and "(8 * length src + 4) div 5 = n" and "n \<le> 8"
  shows "\<exists>body n. EncodeToString src = body @ replicate n CHR ''=''
      \<and> set body \<subseteq> set encodeStd \<and> length body = (8 * length src + 4) div 5"
proof (intro exI conjI)
  show "EncodeToString src = take n (quantum a b c d e) @ replicate p CHR ''=''"
    by (rule assms(1))
  show "set (take n (quantum a b c d e)) \<subseteq> set encodeStd"
    by (rule set_take_quantum)
  show "length (take n (quantum a b c d e)) = (8 * length src + 4) div 5"
    using assms(2,3) by simp
qed

lemma EncodeToString_shape:
  "\<exists>body n. EncodeToString src = body @ replicate n CHR ''=''
      \<and> set body \<subseteq> set encodeStd \<and> length body = (8 * length src + 4) div 5"
proof (induction src rule: EncodeToString.induct)
  case (1 a b c d e src)
  then obtain body n where
    "EncodeToString src = body @ replicate n CHR ''=''" "set body \<subseteq> set encodeStd"
    "length body = (8 * length src + 4) div 5" by blast
  from shape_step [OF this] show ?case by blast
next
  case (2 a b c d)
  have "EncodeToString [a, b, c, d] = take 7 (quantum a b c d 0) @ replicate 1 CHR ''=''"
    by (simp only: EncodeToString.simps pad)
  moreover have "(8 * length [a, b, c, d] + 4) div 5 = 7" by (rule groups)
  ultimately show ?case by (rule shape_base) simp
next
  case (3 a b c)
  have "EncodeToString [a, b, c] = take 5 (quantum a b c 0 0) @ replicate 3 CHR ''=''"
    by (simp only: EncodeToString.simps pad)
  moreover have "(8 * length [a, b, c] + 4) div 5 = 5" by (rule groups)
  ultimately show ?case by (rule shape_base) simp
next
  case (4 a b)
  have "EncodeToString [a, b] = take 4 (quantum a b 0 0 0) @ replicate 4 CHR ''=''"
    by (simp only: EncodeToString.simps pad)
  moreover have "(8 * length [a, b] + 4) div 5 = 4" by (rule groups)
  ultimately show ?case by (rule shape_base) simp
next
  case (5 a)
  have "EncodeToString [a] = take 2 (quantum a 0 0 0 0) @ replicate 6 CHR ''=''"
    by (simp only: EncodeToString.simps pad)
  moreover have "(8 * length [a] + 4) div 5 = 2" by (rule groups)
  ultimately show ?case by (rule shape_base) simp
next
  case 6
  show ?case
    by (intro exI [of _ "[]"] exI [of _ 0]) simp
qed

text \<open>The test vectors of RFC 4648 for the encoding.\<close>

lemma EncodeToString_vectors:
  "EncodeToString [102] = ''MY======''"
  "EncodeToString [102, 111] = ''MZXQ====''"
  "EncodeToString [102, 111, 111] = ''MZXW6===''"
  "EncodeToString [102, 111, 111, 98] = ''MZXW6YQ=''"
  "EncodeToString [102, 111, 111, 98, 97] = ''MZXW6YTB''"
  "EncodeToString [102, 111, 111, 98, 97, 114] = ''MZXW6YTBOI======''"
  by (simp_all add: quantum_def digit_def encodeStd_def)

lemma TrimRight_padding:
  assumes "set body \<subseteq> set encodeStd"
  shows "TrimRight (body @ replicate n CHR ''='') ''='' = body"
proof -
  have "\<forall>x \<in> set (rev body). x \<noteq> CHR ''=''"
    using assms by (auto simp add: encodeStd_def)
  then have "dropWhile (\<lambda>c. c = CHR ''='') (rev body) = rev body"
    by (cases "rev body") auto
  then show ?thesis
    by (simp add: TrimRight_def dropWhile_append)
qed

lemma TrimRight_EncodeToString:
  "length (TrimRight (EncodeToString src) ''='') = (8 * length src + 4) div 5
   \<and> set (TrimRight (EncodeToString src) ''='') \<subseteq> set encodeStd"
proof -
  obtain body n where "EncodeToString src = body @ replicate n CHR ''=''"
    "set body \<subseteq> set encodeStd" "length body = (8 * length src + 4) div 5"
    using EncodeToString_shape [of src] by blast
  then show ?thesis
    by (simp add: TrimRight_padding)
qed


lemma touch'_fields [simp]:
  "ID' (touch' now b s) = ID' s" "Data' (touch' now b s) = Data' s" "ExpiresAt (touch' now b s) = ExpiresAt s"
  by (simp_all add: touch'_def)

lemma Save_create:
  assumes "\<not> sint (MaxAge (SessionOptions session)) < 0"
    and "getSessionFromCookie c st (lookup_now env) (lookup_stmt env) r (SessionName session) = None"
    and "Encode_values c (secureCookie st) (SessionName session) (Values session) = Inr data"
  shows "Save c env st r w session =
    (let sid = TrimRight (EncodeToString (GenerateRandomKey (entropy env) sessionIDLen)) ''='';
         session1 = session\<lparr>SessionID := sid\<rparr>;
         s1 = \<lparr>ID' = sid, Data' = data, CreatedAt' = save_now env, UpdatedAt' = save_now env,
               ExpiresAt = Add (save_now env) (Second * MaxAge (SessionOptions session))\<rparr>
     in case gorm_Create (write_stmt env) ID' touch' (mapper_now env) s1 (sessionTable' st) of
          (Some e, t) \<Rightarrow> (Some e, st, w, session1)
        | (None, t) \<Rightarrow>
            (case Encode_string c (secureCookie st) (SessionName session) sid of
               Inl e \<Rightarrow> (Some e, set_sessionTable' st t, w, session1)
             | Inr cv \<Rightarrow>
                 (None, set_sessionTable' st t,
                  w @ [NewCookie (SessionName session) cv (SessionOptions session)], session1)))"
  using assms
  by (simp add: Save_def Let_def SetCookie_def split: prod.splits option.splits sum.splits)

lemma Save_update:
  assumes "\<not> sint (MaxAge (SessionOptions session)) < 0"
    and "getSessionFromCookie c st (lookup_now env) (lookup_stmt env) r (SessionName session) = Some s0"
    and "Encode_values c (secureCookie st) (SessionName session) (Values session) = Inr data"
  shows "Save c env st r w session =
    (let s1 = s0\<lparr>Data' := data, UpdatedAt' := save_now env,
                 ExpiresAt := Add (save_now env) (Second * MaxAge (SessionOptions session))\<rparr>
     in case gorm_Save (write_stmt env) ID' touch' (mapper_now env) s1 (sessionTable' st) of
          (Some e, t) \<Rightarrow> (Some e, st, w, session)
        | (None, t) \<Rightarrow>
            (case Encode_string c (secureCookie st) (SessionName session) (ID' s0) of
               Inl e \<Rightarrow> (Some e, set_sessionTable' st t, w, session)
             | Inr cv \<Rightarrow>
                 (None, set_sessionTable' st t,
                  w @ [NewCookie (SessionName session) cv (SessionOptions session)], session)))"
  using assms
  by (simp add: Save_def Let_def SetCookie_def split: prod.splits option.splits sum.splits)

lemma new_identifier_shape:
  "length (TrimRight (EncodeToString (GenerateRandomKey e sessionIDLen)) ''='') = 52
   \<and> set (TrimRight (EncodeToString (GenerateRandomKey e sessionIDLen)) ''='') \<subseteq> set encodeStd"
  using TrimRight_EncodeToString [of "GenerateRandomKey e sessionIDLen"]
  by (simp add: GenerateRandomKey_def sessionIDLen_def)

text \<open>
  C9. The identifier of a new session. When the max-age is not negative, the lookup by
  cookie finds no row and the session's values encode, \<^verbatim>\<open>Save\<close> sets the session's
  identifier to the base-32 text, without its padding, of the 32 bytes it draws from the
  random source: 52 characters of the base-32 alphabet. The identifier does not depend
  on the table: when the table holds a row with that very identifier, the insert is
  still attempted and \<^verbatim>\<open>Save\<close> returns the store's duplicate-key error, with store and
  response unchanged; when it holds none, the row inserted carries the identifier and
  the encoded values.
\<close>

theorem new_session_identifier:
  assumes "\<not> sint (MaxAge (SessionOptions session)) < 0"
    and "getSessionFromCookie c st (lookup_now env) (lookup_stmt env) r (SessionName session) = None"
    and "Encode_values c (secureCookie st) (SessionName session) (Values session) = Inr data"
    and "Save c env st r w session = (err, st', w', session')"
  shows "SessionID session' = TrimRight (EncodeToString (GenerateRandomKey (entropy env) 32)) ''=''
    \<and> length (GenerateRandomKey (entropy env) 32) = 32
    \<and> length (SessionID session') = 52
    \<and> set (SessionID session') \<subseteq> set encodeStd
    \<and> (write_stmt env = None \<and> list_ex (\<lambda>row. ID' row = SessionID session') (sessionTable' st)
         \<longrightarrow> err = Some ErrDuplicatedKey \<and> st' = st \<and> w' = w)
    \<and> (write_stmt env = None \<and> \<not> list_ex (\<lambda>row. ID' row = SessionID session') (sessionTable' st)
         \<longrightarrow> (\<exists>row \<in> set (sessionTable' st'). ID' row = SessionID session' \<and> Data' row = data))"
proof -
  let ?sid = "TrimRight (EncodeToString (GenerateRandomKey (entropy env) sessionIDLen)) ''=''"
  note save = assms(4) [unfolded Save_create [OF assms(1-3)], symmetric]
  have sid: "SessionID session' = ?sid"
    using save by (auto simp add: Let_def split: prod.splits option.splits sum.splits)
  have dup: "err = Some ErrDuplicatedKey \<and> st' = st \<and> w' = w"
    if "write_stmt env = None" "list_ex (\<lambda>row. ID' row = SessionID session') (sessionTable' st)"
    using save that unfolding sid by (simp add: Let_def gorm_Create_def)
  have ins: "\<exists>row \<in> set (sessionTable' st'). ID' row = SessionID session' \<and> Data' row = data"
    if "write_stmt env = None" "\<not> list_ex (\<lambda>row. ID' row = SessionID session') (sessionTable' st)"
    using save that unfolding sid
    by (auto simp add: Let_def gorm_Create_def split: sum.splits)
  show ?thesis
    using sid dup ins new_identifier_shape [of "entropy env"]
    by (simp add: sessionIDLen_def GenerateRandomKey_def)
qed

text \<open>
  C10. \<^verbatim>\<open>Save\<close> is not atomic with respect to the cookie. Let the max-age be not
  negative, the session's values encode to \<open>data\<close>, \<open>sid\<close> be the identifier of the row
  found by the lookup or else the new identifier, and the statement that writes the row
  execute (an insert meeting no row with that identifier). When encoding \<open>sid\<close> for the
  cookie fails with \<open>e\<close>, \<^verbatim>\<open>Save\<close> returns \<open>e\<close>, the response is as it was, and the
  table holds a row with the identifier \<open>sid\<close>, the data \<open>data\<close> and the new expiry.
\<close>

theorem save_not_atomic:
  assumes "\<not> sint (MaxAge (SessionOptions session)) < 0"
    and "Encode_values c (secureCookie st) (SessionName session) (Values session) = Inr data"
    and "sid = (case getSessionFromCookie c st (lookup_now env) (lookup_stmt env) r (SessionName session) of
                  None \<Rightarrow> TrimRight (EncodeToString (GenerateRandomKey (entropy env) sessionIDLen)) ''=''
                | Some s0 \<Rightarrow> ID' s0)"
    and "write_stmt env = None"
    and "getSessionFromCookie c st (lookup_now env) (lookup_stmt env) r (SessionName session) = None
           \<longrightarrow> \<not> list_ex (\<lambda>row. ID' row = sid) (sessionTable' st)"
    and "Encode_string c (secureCookie st) (SessionName session) sid = Inl e"
    and "Save c env st r w session = (err, st', w', session')"
  shows "err = Some e \<and> w' = w
    \<and> (\<exists>row \<in> set (sessionTable' st'). ID' row = sid \<and> Data' row = data
          \<and> ExpiresAt row = Add (save_now env) (Second * MaxAge (SessionOptions session)))"
proof (cases "getSessionFromCookie c st (lookup_now env) (lookup_stmt env) r (SessionName session)")
  case None
  note save = assms(7) [unfolded Save_create [OF assms(1) None assms(2)], symmetric]
  from None assms(3,5) have "\<not> list_ex (\<lambda>row. ID' row = sid) (sessionTable' st)"
    and "sid = TrimRight (EncodeToString (GenerateRandomKey (entropy env) sessionIDLen)) ''=''"
    by simp_all
  with save assms(4,6) show ?thesis
    by (simp add: Let_def gorm_Create_def)
next
  case (Some s0)
  note save = assms(7) [unfolded Save_update [OF assms(1) Some assms(2)], symmetric]
  let ?s1 = "touch' (mapper_now env) False
               (s0\<lparr>Data' := data, UpdatedAt' := save_now env,
                   ExpiresAt := Add (save_now env) (Second * MaxAge (SessionOptions session))\<rparr>)"
  let ?t = "map (\<lambda>r. if ID' r = ID' s0 then ?s1 else r) (sessionTable' st)"
  from Some assms(3) have sid: "sid = ID' s0" by simp
  from getSessionFromCookie_Some [OF Some] have in_table: "s0 \<in> set (sessionTable' st)" by simp
  then have ex: "list_ex (\<lambda>row. ID' row = ID' s0) (sessionTable' st)"
    by (auto simp add: list_ex_iff)
  from in_table have "(\<lambda>r. if ID' r = ID' s0 then ?s1 else r) s0 \<in> set ?t"
    unfolding set_map by (rule imageI)
  then have row: "?s1 \<in> set ?t" by simp
  from save assms(4,6) sid ex have "err = Some e" "w' = w" "sessionTable' st' = ?t"
    by (simp_all add: Let_def gorm_Save_def)
  with row sid show ?thesis
    by (intro conjI bexI [of _ ?s1]) simp_all
qed


lemma envelope_Decode_iff:
  "(envelope_Decode len sc now name (Sealed k0 name t0 v) = Inr v)
     = (k0 \<in> set (sc_key sc # RotatedKeys (sc_options sc))
        \<and> \<not> tooLong len sc (Sealed k0 name t0 v) \<and> \<not> expired sc now t0)"
  by (simp add: envelope_Decode_def)

lemma envelope_Encode_key:
  "envelope_Encode len sc t name v = Inr text \<Longrightarrow> text = Sealed (sc_key sc) name t v"
  by (auto simp add: envelope_Encode_def Let_def split: if_splits)

lemma NewOptions'_codec:
  assumes "NewOptions' d os ks = Inr st"
  shows "ks \<noteq> [] \<and> keys st = ks
    \<and> secureCookie st = securecookie_New (hd ks)
         \<lparr>MaxAge' = 0, MaxLength = 0, RotatedKeys = tl ks, Serializer_of = GobEncoder\<rparr>"
  using assms by (cases ks) (auto simp add: NewOptions'_def Let_def)

lemma Store_MaxAge_codec:
  assumes "Store_MaxAge st dflt a = Inr (st1, dflt1)"
  shows "keys st1 = keys st \<and> sc_key (secureCookie st1) = hd (keys st)
    \<and> RotatedKeys (sc_options (secureCookie st1)) = tl (keys st)"
  using assms by (cases "keys st") (auto simp add: Store_MaxAge_def Let_def securecookie_New_def)

lemma Store_MaxLength_codec:
  assumes "Store_MaxLength st dflt l = Inr (st1, dflt1)"
  shows "keys st1 = keys st \<and> sc_key (secureCookie st1) = hd (keys st)
    \<and> RotatedKeys (sc_options (secureCookie st1)) = tl (keys st)"
  using assms by (cases "keys st") (auto simp add: Store_MaxLength_def Let_def securecookie_New_def)

lemma hd_tl_set: "ks \<noteq> [] \<Longrightarrow> set (hd ks # tl ks) = set ks"
  by (cases ks) simp_all

lemma getSessionFromCookie_rejected:
  "Request_Cookie r name = Some cv \<Longrightarrow> Decode_string c (secureCookie st) name cv = Inl e
     \<Longrightarrow> getSessionFromCookie c st now stmt r name = None"
  by (simp add: getSessionFromCookie_def)

text \<open>
  C6. Key rotation, for a store that \<^verbatim>\<open>NewOptions\<close> built from the keys \<open>ks\<close>, against
  the envelope modelled above. An encoding is sealed under the first key of \<open>ks\<close> and
  no other. A text sealed under a key \<open>k0\<close> for the same cookie name opens if and only
  if \<open>k0\<close> is one of \<open>ks\<close>, the first or a rotated one. After \<^verbatim>\<open>MaxAge\<close> or
  \<^verbatim>\<open>MaxLength\<close> has built the codec anew, the sealing key is still the first of \<open>ks\<close>,
  and a text opens if and only if \<open>k0\<close> is one of \<open>ks\<close> and the text is within the
  limits of age and length. A cookie that the codec rejects yields no session.
\<close>

theorem key_rotation:
  assumes "NewOptions' d os ks = Inr st"
  shows "envelope_Encode len (secureCookie st) t name v = Inr (Sealed (hd ks) name t v)
    \<and> (envelope_Decode len (secureCookie st) t' name (Sealed k0 name t0 v) = Inr v) = (k0 \<in> set ks)
    \<and> (\<forall>dflt n st1 dflt1.
          Store_MaxAge st dflt n = Inr (st1, dflt1) \<or> Store_MaxLength st dflt n = Inr (st1, dflt1) \<longrightarrow>
            (\<forall>text. envelope_Encode len (secureCookie st1) t name v = Inr text
                      \<longrightarrow> text = Sealed (hd ks) name t v)
            \<and> (envelope_Decode len (secureCookie st1) t' name (Sealed k0 name t0 v) = Inr v)
                = (k0 \<in> set ks \<and> \<not> tooLong len (secureCookie st1) (Sealed k0 name t0 v)
                   \<and> \<not> expired (secureCookie st1) t' t0))
    \<and> (\<forall>c r cv e now stmt.
          Request_Cookie r name = Some cv \<and> Decode_string c (secureCookie st) name cv = Inl e
            \<longrightarrow> getSessionFromCookie c st now stmt r name = None)"
proof -
  note new = NewOptions'_codec [OF assms]
  from new have ks: "set (hd ks # tl ks) = set ks" by (simp add: hd_tl_set)
  have enc: "envelope_Encode len (secureCookie st) t name v = Inr (Sealed (hd ks) name t v)"
    using new by (simp add: envelope_Encode_def tooLong_def securecookie_New_def)
  have dec: "(envelope_Decode len (secureCookie st) t' name (Sealed k0 name t0 v) = Inr v) = (k0 \<in> set ks)"
    unfolding envelope_Decode_iff using new ks
    by (simp add: tooLong_def expired_def securecookie_New_def)
  have re: "(\<forall>text. envelope_Encode len (secureCookie st1) t name v = Inr text
                      \<longrightarrow> text = Sealed (hd ks) name t v)
            \<and> (envelope_Decode len (secureCookie st1) t' name (Sealed k0 name t0 v) = Inr v)
                = (k0 \<in> set ks \<and> \<not> tooLong len (secureCookie st1) (Sealed k0 name t0 v)
                   \<and> \<not> expired (secureCookie st1) t' t0)"
    if "Store_MaxAge st dflt n = Inr (st1, dflt1) \<or> Store_MaxLength st dflt n = Inr (st1, dflt1)"
    for dflt n st1 dflt1
  proof -
    from that have "sc_key (secureCookie st1) = hd ks \<and> RotatedKeys (sc_options (secureCookie st1)) = tl ks"
      using new Store_MaxAge_codec Store_MaxLength_codec by metis
    then show ?thesis
      unfolding envelope_Decode_iff using ks by (auto dest: envelope_Encode_key)
  qed
  show ?thesis
    using enc dec re getSessionFromCookie_rejected by blast
qed


lemmas sample_defs = sample_codec_def failing_codec_def old_row_def live_row_def sample_store_def
  sample_defaults_def sample_env_def sample_session_def sample_request_def

lemma sample_table [simp]: "sessionTable' sample_store = [old_row, live_row]"
  by (simp add: sample_store_def sessionTable'_def)

lemma sample_lookup_old:
  "getSessionFromCookie sample_codec sample_store 50 None (sample_request ''id:old'') ''sess'' = None"
  by (simp add: getSessionFromCookie_def gorm_Find_def Request_Cookie_def Let_def
      sample_codec_def sample_request_def old_row_def live_row_def)

lemma sample_lookup_live:
  "getSessionFromCookie sample_codec sample_store 50 None (sample_request ''id:live'') ''sess'' = Some live_row"
  by (simp add: getSessionFromCookie_def gorm_Find_def Request_Cookie_def Let_def
      sample_codec_def sample_request_def old_row_def live_row_def)

lemma sample_MaxAge:
  "Store_MaxAge sample_store sample_defaults (MaxAge (SessionOpts sample_store))
     = Inr (sample_store\<lparr>secureCookie := securecookie_New [1]
                \<lparr>MaxAge' = 2592000, MaxLength = 4096, RotatedKeys = [], Serializer_of = GobEncoder\<rparr>\<rparr>,
            sample_defaults\<lparr>MaxAge' := 2592000\<rparr>)"
  by (simp add: Store_MaxAge_def Let_def sample_store_def sample_defaults_def)

theorem absolute_expiry_witness:
  "getSessionFromCookie sample_codec sample_store 50 None (sample_request ''id:old'') ''sess'' = None
   \<and> Store_New sample_codec sample_store sample_defaults 50 None (sample_request ''id:old'') ''sess''
       = Inr ((sample_session 2592000, None),
              sample_store\<lparr>secureCookie := securecookie_New [1]
                \<lparr>MaxAge' = 2592000, MaxLength = 4096, RotatedKeys = [], Serializer_of = GobEncoder\<rparr>\<rparr>,
              sample_defaults\<lparr>MaxAge' := 2592000\<rparr>)
   \<and> sessionTable' (Cleanup sample_store 50 None) = [live_row]
   \<and> getSessionFromCookie sample_codec (Cleanup sample_store 50 None) 50 None
        (sample_request ''id:live'') ''sess'' = Some live_row"
proof -
  let ?st0 = "sample_store\<lparr>secureCookie := securecookie_New [1]
                \<lparr>MaxAge' = 2592000, MaxLength = 4096, RotatedKeys = [], Serializer_of = GobEncoder\<rparr>\<rparr>"
  note old = absolute_expiry [of sample_codec sample_store 50 None "sample_request ''id:old''" "''sess''"
      sample_defaults]
  note live = absolute_expiry [of sample_codec sample_store 50 None "sample_request ''id:live''" "''sess''"
      sample_defaults]
  have cookie: "Request_Cookie (sample_request ''id:old'') ''sess'' = Some ''id:old''"
    by (simp add: Request_Cookie_def sample_request_def)
  have decode: "Decode_string sample_codec sc ''sess'' ''id:old'' = Inr ''old''" for sc
    by (simp add: sample_codec_def)
  have dead: "\<forall>row \<in> set (sessionTable' sample_store). ID' row = ''old'' \<longrightarrow> ExpiresAt row \<le> 50"
    by (simp add: old_row_def live_row_def)
  from old cookie decode [of "secureCookie sample_store"] dead
  have lookup: "getSessionFromCookie sample_codec sample_store 50 None (sample_request ''id:old'') ''sess'' = None"
    by blast
  from old sample_MaxAge cookie decode [of "secureCookie ?st0"] dead
  have "Store_New sample_codec sample_store sample_defaults 50 None (sample_request ''id:old'') ''sess''
       = Inr (((NewSession ''sess'')\<lparr>SessionOptions := SessionOpts sample_store, IsNew := True\<rparr>, None),
              ?st0, sample_defaults\<lparr>MaxAge' := 2592000\<rparr>)"
    by blast
  then have fresh: "Store_New sample_codec sample_store sample_defaults 50 None (sample_request ''id:old'') ''sess''
       = Inr ((sample_session 2592000, None), ?st0, sample_defaults\<lparr>MaxAge' := 2592000\<rparr>)"
    by (simp add: NewSession_def sample_session_def sample_store_def)
  from live have "sessionTable' (Cleanup sample_store 50 None) = [live_row]"
    "getSessionFromCookie sample_codec (Cleanup sample_store 50 None) 50 None
        (sample_request ''id:live'') ''sess'' = Some live_row"
    by (simp_all add: sample_lookup_live old_row_def live_row_def)
  with lookup fresh show ?thesis by simp
qed



theorem new_session_identifier_witness:
  "length (SessionID (snd (snd (snd
      (Save sample_codec sample_env sample_store \<lparr>Cookies = []\<rparr> [] (sample_session 3600)))))) = 52"
proof -
  have "\<not> sint (MaxAge (SessionOptions (sample_session 3600))) < 0"
    by (simp add: sample_session_def)
  moreover have "getSessionFromCookie sample_codec sample_store (lookup_now sample_env)
      (lookup_stmt sample_env) \<lparr>Cookies = []\<rparr> (SessionName (sample_session 3600)) = None"
    by (simp add: getSessionFromCookie_def Request_Cookie_def)
  moreover have "Encode_values sample_codec (secureCookie sample_store) (SessionName (sample_session 3600))
      (Values (sample_session 3600)) = Inr ''data''"
    by (simp add: sample_codec_def)
  moreover obtain err st' w' session' where
    save: "Save sample_codec sample_env sample_store \<lparr>Cookies = []\<rparr> [] (sample_session 3600)
             = (err, st', w', session')"
    by (metis prod.collapse)
  ultimately have "length (SessionID session') = 52"
    using new_session_identifier by blast
  with save show ?thesis by simp
qed

theorem save_not_atomic_witness:
  "Save failing_codec sample_env sample_store (sample_request ''id:live'') [] (sample_session 3600)
     = (Some (Err ''too long''),
        set_sessionTable' sample_store
          [old_row, live_row\<lparr>Data' := ''data'', UpdatedAt' := 52, ExpiresAt := 3600000000051\<rparr>],
        [], sample_session 3600)"
proof -
  let ?s = "sample_session 3600"
  have found: "getSessionFromCookie failing_codec sample_store (lookup_now sample_env) (lookup_stmt sample_env)
      (sample_request ''id:live'') (SessionName ?s) = Some live_row"
    by (simp add: getSessionFromCookie_def gorm_Find_def Request_Cookie_def Let_def
      sessionTable'_def sample_defs)
  have nonneg: "\<not> sint (MaxAge (SessionOptions ?s)) < 0"
    by (simp add: sample_session_def)
  have data: "Encode_values failing_codec (secureCookie sample_store) (SessionName ?s) (Values ?s) = Inr ''data''"
    by (simp add: sample_defs)
  have save: "Save failing_codec sample_env sample_store (sample_request ''id:live'') [] ?s
     = (Some (Err ''too long''),
        set_sessionTable' sample_store
          [old_row, live_row\<lparr>Data' := ''data'', UpdatedAt' := 52, ExpiresAt := 3600000000051\<rparr>],
        [], ?s)"
    unfolding Save_update [OF nonneg found data]
    by (simp add: Let_def gorm_Save_def touch'_def Add_def Second_def failing_codec_def
        sample_codec_def sample_env_def sample_session_def old_row_def live_row_def)
  have "Some (Err ''too long'') = Some (Err ''too long'') \<and> ([] :: ResponseWriter) = []
    \<and> (\<exists>row \<in> set (sessionTable' (set_sessionTable' sample_store
          [old_row, live_row\<lparr>Data' := ''data'', UpdatedAt' := 52, ExpiresAt := 3600000000051\<rparr>])).
          ID' row = ''live'' \<and> Data' row = ''data''
          \<and> ExpiresAt row = Add (save_now sample_env) (Second * MaxAge (SessionOptions ?s)))"
    using save_not_atomic [OF nonneg data _ _ _ _ save, of "''live''" "Err ''too long''"] found
    by (simp add: failing_codec_def sample_codec_def sample_env_def sample_session_def
        old_row_def live_row_def)
  with save show ?thesis by simp
qed

theorem construction_needs_key_witness:
  "New' (\<lambda>_. []) [] = Inl (Panic ''key required'')
   \<and> (\<exists>st. New' (\<lambda>_. []) [[1]] = Inr st \<and> keys st = [[1]])"
  using construction_needs_key [of "\<lambda>_. []" "\<lparr>TableName = '''', SkipCreateTable = False\<rparr>" "[1]" "[]"]
  by simp

theorem key_rotation_witness:
  "envelope_Encode (\<lambda>_. 0) (secureCookie (projr (New' (\<lambda>_. []) [[2], [1]]))) 7 ''sess'' ''live''
     = Inr (Sealed [2] ''sess'' 7 ''live'')
   \<and> envelope_Decode (\<lambda>_. 0) (secureCookie (projr (New' (\<lambda>_. []) [[2], [1]]))) 9 ''sess''
        (Sealed [1] ''sess'' 5 ''live'') = Inr ''live''
   \<and> envelope_Decode (\<lambda>_. 0) (secureCookie (projr (New' (\<lambda>_. []) [[2]]))) 9 ''sess''
        (Sealed [1] ''sess'' 5 ''live'') = Inl ErrDecode"
proof -
  have rotated: "NewOptions' (\<lambda>_. []) \<lparr>TableName = '''', SkipCreateTable = False\<rparr> [[2], [1]]
      = Inr (projr (New' (\<lambda>_. []) [[2], [1]]))"
    by (simp add: New'_def NewOptions'_def Let_def)
  have removed: "NewOptions' (\<lambda>_. []) \<lparr>TableName = '''', SkipCreateTable = False\<rparr> [[2]]
      = Inr (projr (New' (\<lambda>_. []) [[2]]))"
    by (simp add: New'_def NewOptions'_def Let_def)
  have "envelope_Decode (\<lambda>_. 0) (secureCookie (projr (New' (\<lambda>_. []) [[2]]))) 9 ''sess''
        (Sealed [1] ''sess'' 5 ''live'') = Inl ErrDecode"
    by (simp add: New'_def NewOptions'_def Let_def envelope_Decode_def tooLong_def
        securecookie_New_def)
  then show ?thesis
    using key_rotation [OF rotated, of "\<lambda>_. 0" 7 "''sess''" "''live''" 9 "[1]" 5]
      key_rotation [OF removed, of "\<lambda>_. 0" 7 "''sess''" "''live''" 9 "[1]" 5]
    by simp
qed

end
